theory Spec2Isabelle
  imports Complex_Main "HOL-Library.AList"
begin

section \<open>The play-money prediction bot of \<^verbatim>\<open>src/main.py\<close>\<close>

text \<open>
  The bot keeps three tables (users, markets, bets), quotes a YES and a NO price per
  market, fills bets against a user's balance and answers chat events that arrive on a
  webhook. This theory embeds the functions of \<^verbatim>\<open>main.py\<close> one by one. What
  the functions call but the file does not define is a parameter of the embedding,
  collected in the environment \<open>env\<close> below: the messaging platform, the clock, the
  rounding of the machine's floating-point arithmetic, the string methods of the Python
  run time and the database driver's reading of a key that is not a string.

  Numbers. A \<^verbatim>\<open>float\<close> value (balance, price) is the real number it denotes.
  The update of the quotes in \<^verbatim>\<open>apply_price_impact\<close> is taken exact, with the
  literals \<^verbatim>\<open>0.10\<close>, \<^verbatim>\<open>0.001\<close>, \<^verbatim>\<open>0.99\<close> and \<^verbatim>\<open>0.01\<close> as
  the fractions they denote. The product and the difference in \<^verbatim>\<open>place_bet\<close>
  decide whether a bet is refused, and are the machine's: the exact result, rounded by
  the environment. Python's \<^verbatim>\<open>int\<close> is \<^typ>\<open>int\<close>.

  Text. A string is its UTF-8 bytes. Comparison with an ASCII literal and splitting at
  an ASCII separator are exact on them; \<^verbatim>\<open>upper\<close>, \<^verbatim>\<open>lower\<close>,
  \<^verbatim>\<open>strip\<close>, \<^verbatim>\<open>isdigit\<close> and \<^verbatim>\<open>int\<close> follow Unicode tables and are
  taken from the environment.

  Store. The default store of line 20 is SQLite: an integer bound to a statement must
  fit into 64 signed bits.
\<close>

subsection \<open>Tables\<close>

text \<open>
  The primary key of a row is the key under which the table holds it, so the records
  carry the other columns only: \<^verbatim>\<open>User.wa_id\<close> and \<^verbatim>\<open>Market.id\<close> are
  the keys of the two tables, and the position of a bet in the append-only list stands
  for \<^verbatim>\<open>Bet.id\<close>.
\<close>

record User =
  balance :: real

record Market =
  question :: string
  is_open :: bool
  yes_price :: real
  no_price :: real

record Bet =
  wa_id :: string
  market_id :: int
  side :: string
  price :: real
  qty :: int
  ts :: int

subsection \<open>Market mechanics\<close>

text \<open>
  \<^verbatim>\<open>apply_price_impact(m, side, qty)\<close> mutates the market in place; the model
  returns the updated row. The second assignment of each branch reads the price the
  first one has just written.
\<close>

definition apply_price_impact :: "Market \<Rightarrow> string \<Rightarrow> int \<Rightarrow> Market" where
  "apply_price_impact m sd n =
     (let impact = min (1 / 10) ((1 / 1000) * of_int n) in
      if sd = ''YES'' then
        (let y = min (99 / 100) (yes_price m + impact) in
         m\<lparr>yes_price := y, no_price := max (1 / 100) (1 - y)\<rparr>)
      else
        (let x = min (99 / 100) (no_price m + impact) in
         m\<lparr>no_price := x, yes_price := max (1 / 100) (1 - x)\<rparr>))"


subsection \<open>Exceptions and text\<close>

text \<open>
  Exceptions of the Python run time, of \<^verbatim>\<open>requests\<close>, of the database driver
  and of \<^verbatim>\<open>send_whatsapp\<close> (its two \<^verbatim>\<open>RuntimeError\<close>s are
  \<open>MissingEnv\<close> and \<open>SendFailed\<close>).
\<close>

datatype exn =
    IndexError
  | KeyError
  | TypeError
  | AttributeError
  | ValueError
  | OverflowError
  | JSONDecodeError
  | RequestException
  | InterfaceError
  | MissingEnv
  | SendFailed nat

text \<open>
  \<^verbatim>\<open>s.split(c)\<close> for a separator of one ASCII character: the pieces between the
  separators, one more than there are separators (so never the empty list).
\<close>

fun split :: "char \<Rightarrow> string \<Rightarrow> string list" where
  "split c [] = [[]]"
| "split c (x # xs) =
     (if x = c then [] # split c xs
      else (case split c xs of [] \<Rightarrow> [[x]] | p # ps \<Rightarrow> (x # p) # ps))"

text \<open>
  The first character of a string: its first byte and the continuation bytes
  (0x80 to 0xBF) that follow it.
\<close>

definition continuation :: "char \<Rightarrow> bool" where
  "continuation c = (128 \<le> (of_char c :: nat) \<and> (of_char c :: nat) < 192)"

definition first_char :: "string \<Rightarrow> string" where
  "first_char s = (case s of [] \<Rightarrow> [] | c # cs \<Rightarrow> c # takeWhile continuation cs)"

subsection \<open>JSON values as Python sees them\<close>

text \<open>
  What \<^verbatim>\<open>json.loads\<close> returns: \<^verbatim>\<open>None\<close>, a bool, an int, a float (of
  which only the truth value is ever read), a str, a list or a dict with string keys
  (the association list holds the items).
\<close>

datatype json =
    JNull
  | JBool bool
  | JInt int
  | JFloat real
  | JStr string
  | JArr "json list"
  | JObj "(string \<times> json) list"

text \<open>Truth value of a Python object, as \<^verbatim>\<open>or\<close> and \<^verbatim>\<open>not\<close> read it.\<close>

fun truthy :: "json \<Rightarrow> bool" where
  "truthy JNull = False"
| "truthy (JBool b) = b"
| "truthy (JInt i) = (i \<noteq> 0)"
| "truthy (JFloat r) = (r \<noteq> 0)"
| "truthy (JStr s) = (s \<noteq> [])"
| "truthy (JArr xs) = (xs \<noteq> [])"
| "truthy (JObj kvs) = (kvs \<noteq> [])"

text \<open>\<^verbatim>\<open>x or d\<close>.\<close>

definition py_or :: "json \<Rightarrow> json \<Rightarrow> json" where
  "py_or x d = (if truthy x then x else d)"

text \<open>
  \<^verbatim>\<open>x.get(k)\<close>: only a dict has the method; a missing key gives
  \<^verbatim>\<open>None\<close>.
\<close>

fun dict_get :: "json \<Rightarrow> string \<Rightarrow> exn + json" where
  "dict_get (JObj kvs) k = Inr (case map_of kvs k of None \<Rightarrow> JNull | Some v \<Rightarrow> v)"
| "dict_get _ k = Inl AttributeError"

text \<open>
  \<^verbatim>\<open>x[0]\<close>: the first element of a list, the first character of a string (as a
  string); a dict from JSON has no key \<^verbatim>\<open>0\<close>; the other values are not
  subscriptable.
\<close>

fun item0 :: "json \<Rightarrow> exn + json" where
  "item0 (JArr []) = Inl IndexError"
| "item0 (JArr (x # xs)) = Inr x"
| "item0 (JStr []) = Inl IndexError"
| "item0 (JStr (c # cs)) = Inr (JStr (first_char (c # cs)))"
| "item0 (JObj kvs) = Inl KeyError"
| "item0 _ = Inl TypeError"

text \<open>\<^verbatim>\<open>x[k]\<close> for a string key: a dict looks it up, everything else refuses.\<close>

fun item :: "json \<Rightarrow> string \<Rightarrow> exn + json" where
  "item (JObj kvs) k = (case map_of kvs k of None \<Rightarrow> Inl KeyError | Some v \<Rightarrow> Inr v)"
| "item _ k = Inl TypeError"

subsection \<open>Outbound messages and the environment\<close>

text \<open>
  An f-string is kept as its template: literal text with typed holes. \<open>F2 x\<close> is a
  float printed as \<^verbatim>\<open>{x:.2f}\<close>, \<open>D n\<close> an int printed as \<^verbatim>\<open>{n}\<close>;
  an interpolated string is literal text.
\<close>

datatype piece = Lit string | F2 real | D int

type_synonym fstring = "piece list"

text \<open>
  The two payloads the bot posts: a text message (recipient, body) and an interactive
  message with reply buttons (recipient, body, and per button its id and its title).
  The recipient is the sender id as the event gave it, a JSON value.
\<close>

datatype payload =
    Text json fstring
  | Interactive json fstring "(fstring \<times> fstring) list"

text \<open>
  What \<^verbatim>\<open>requests.post\<close> does with a payload is the platform's choice: the call
  raises (time-out, no connection), or an answer comes back with a status code and a
  body that is JSON or not.
\<close>

datatype http = Unreachable | Answer nat bool

text \<open>
  The environment of one call.
  \<^item> The two credentials read from the process environment, the platform's answer to
    each payload, and the clock that stamps a new bet.
  \<^item> \<open>round_double\<close>: the floating-point number the machine returns for an exact
    result.
  \<^item> \<open>str_upper\<close>, \<open>str_lower\<close>, \<open>str_strip\<close>, \<open>str_isdigit\<close> and \<open>int_of_str\<close>:
    the methods \<^verbatim>\<open>upper\<close>, \<^verbatim>\<open>lower\<close>, \<^verbatim>\<open>strip\<close>,
    \<^verbatim>\<open>isdigit\<close> of \<^verbatim>\<open>str\<close> and \<^verbatim>\<open>int(s)\<close>, which raises
    \<^verbatim>\<open>ValueError\<close> or returns.
  \<^item> \<open>bind_key\<close>: what the store makes of a sender id that is not a string when it is
    bound as the key of the users table: the text under which the row is kept (SQLite
    keeps 123 as the text 123), or the exception raised (a list cannot be bound).
\<close>

record env =
  WHATSAPP_TOKEN :: string
  PHONE_NUMBER_ID :: string
  graph_post :: "payload \<Rightarrow> http"
  now :: int
  round_double :: "real \<Rightarrow> real"
  str_upper :: "string \<Rightarrow> string"
  str_lower :: "string \<Rightarrow> string"
  str_strip :: "string \<Rightarrow> string"
  str_isdigit :: "string \<Rightarrow> bool"
  int_of_str :: "string \<Rightarrow> exn + int"
  bind_key :: "json \<Rightarrow> exn + string"

text \<open>
  The state the handlers work on: the three tables, and the payloads the platform has
  accepted so far (status below 300), oldest first. The list of markets keeps the rows
  for the listing.
\<close>

record world =
  users :: "string \<rightharpoonup> User"
  markets :: "(int \<times> Market) list"
  bets :: "Bet list"
  sent :: "payload list"

definition send_whatsapp :: "env \<Rightarrow> payload \<Rightarrow> world \<Rightarrow> (exn + unit) \<times> world" where
  "send_whatsapp e p s =
     (if WHATSAPP_TOKEN e = [] \<or> PHONE_NUMBER_ID e = [] then (Inl MissingEnv, s)
      else (case graph_post e p of
              Unreachable \<Rightarrow> (Inl RequestException, s)
            | Answer code is_json \<Rightarrow>
                if 300 \<le> code then (Inl (SendFailed code), s)
                else if is_json then (Inr (), s\<lparr>sent := sent s @ [p]\<rparr>)
                else (Inl JSONDecodeError, s\<lparr>sent := sent s @ [p]\<rparr>)))"

definition send_text :: "env \<Rightarrow> json \<Rightarrow> fstring \<Rightarrow> world \<Rightarrow> (exn + unit) \<times> world" where
  "send_text e to_wa_id body s = send_whatsapp e (Text to_wa_id body) s"

definition buttons_payload :: "json \<Rightarrow> int \<Rightarrow> Market \<Rightarrow> payload" where
  "buttons_payload to_wa_id k m =
     Interactive to_wa_id
       [Lit (question m), Lit [CHR 0x0A, CHR 0x0A], Lit ''YES: '', F2 (yes_price m),
        Lit '' | NO: '', F2 (no_price m), Lit [CHR 0x0A, CHR 0x0A], Lit ''Choose:'']
       [([Lit ''BET|'', D k, Lit ''|YES''], [Lit ''YES ('', F2 (yes_price m), Lit '')'']),
        ([Lit ''BET|'', D k, Lit ''|NO''], [Lit ''NO ('', F2 (no_price m), Lit '')''])]"

text \<open>\<^verbatim>\<open>send_yes_no_buttons(to_wa_id, market)\<close>; \<open>k\<close> is \<^verbatim>\<open>market.id\<close>.\<close>

definition send_yes_no_buttons ::
  "env \<Rightarrow> json \<Rightarrow> int \<Rightarrow> Market \<Rightarrow> world \<Rightarrow> (exn + unit) \<times> world" where
  "send_yes_no_buttons e to_wa_id k m s = send_whatsapp e (buttons_payload to_wa_id k m) s"

subsection \<open>The listing\<close>

definition market_line :: "int \<times> Market \<Rightarrow> fstring" where
  "market_line km =
     [D (fst km), Lit '') '', Lit (question (snd km)), Lit ''  [YES '',
      F2 (yes_price (snd km)), Lit '' / NO '', F2 (no_price (snd km)), Lit ''] ('',
      Lit (if is_open (snd km) then ''OPEN'' else ''CLOSED''), Lit '')'']"

text \<open>\<^verbatim>\<open>"\n".join(lines)\<close>.\<close>

fun join_lines :: "fstring list \<Rightarrow> fstring" where
  "join_lines [] = []"
| "join_lines [l] = l"
| "join_lines (l # ls) = l @ [Lit [CHR 0x0A]] @ join_lines ls"

definition list_markets_text :: "world \<Rightarrow> fstring" where
  "list_markets_text s =
     join_lines
       ([[Lit ''Available markets (send the market number):'']]
        @ map market_line (sort_key fst (markets s))
        @ [[Lit [CHR 0x0A], Lit ''Commands: markets | balance | <market_id>'']])"

subsection \<open>Users and bets\<close>

text \<open>
  The key under which the users table keeps the row of a sender id: a string is its own
  key, any other value is the driver's to bind.
\<close>

definition row_key :: "env \<Rightarrow> json \<Rightarrow> exn + string" where
  "row_key e wa = (case wa of JStr w \<Rightarrow> Inr w | _ \<Rightarrow> bind_key e wa)"

text \<open>
  \<^verbatim>\<open>db.get(Market, k)\<close>: the row with that id if there is one; an id outside
  the 64 signed bits cannot be bound and raises \<^verbatim>\<open>OverflowError\<close>.
\<close>

definition get_market :: "world \<Rightarrow> int \<Rightarrow> exn + Market option" where
  "get_market s k =
     (if k < - 9223372036854775808 \<or> 9223372036854775807 < k then Inl OverflowError
      else Inr (map_of (markets s) k))"

text \<open>
  \<^verbatim>\<open>get_or_create_user(db, wa_id)\<close>, for the key of the row: it returns the row
  and, when it had to create it, commits it at once.
\<close>

definition get_or_create_user :: "world \<Rightarrow> string \<Rightarrow> User \<times> world" where
  "get_or_create_user s w =
     (case users s w of
        Some u \<Rightarrow> (u, s)
      | None \<Rightarrow> (let u = \<lparr>balance = 1000\<rparr> in (u, s\<lparr>users := (users s)(w \<mapsto> u)\<rparr>)))"

definition confirmation :: "int \<Rightarrow> Market \<Rightarrow> string \<Rightarrow> real \<Rightarrow> int \<Rightarrow> real \<Rightarrow> fstring" where
  "confirmation k m sd p n bal =
     [Lit [CHR 0xE2, CHR 0x9C, CHR 0x85], Lit '' Bet placed!'', Lit [CHR 0x0A],
      Lit ''Market '', D k, Lit '': '', Lit (question m), Lit [CHR 0x0A],
      Lit ''You: BUY '', Lit sd, Lit '' @ '', F2 p, Lit '' '', Lit [CHR 0xC3, CHR 0x97],
      Lit '' '', D n, Lit [CHR 0x0A], Lit ''Balance: '', F2 bal]"

text \<open>
  \<^verbatim>\<open>qty * price\<close>: the int becomes a float, then the product is rounded.
\<close>

definition cost_of :: "env \<Rightarrow> int \<Rightarrow> real \<Rightarrow> real" where
  "cost_of e n p = round_double e (round_double e (of_int n) * p)"

text \<open>
  \<^verbatim>\<open>place_bet(db, wa_id, market_id, side, qty)\<close>. The user is looked up or
  created first; a market id the store cannot bind raises at line 158. The four refusals
  send a text and return before anything is written. The fill debits the user, adds the
  bet at the price read before the update, moves the quotes, and writes all three with
  the one \<^verbatim>\<open>db.commit()\<close>; the confirmation is sent after it, so a send that
  raises leaves the fill committed.
\<close>

definition place_bet ::
  "env \<Rightarrow> world \<Rightarrow> json \<Rightarrow> int \<Rightarrow> string \<Rightarrow> int \<Rightarrow> (exn + unit) \<times> world" where
  "place_bet e s0 wa k sd0 n =
     (case row_key e wa of
        Inl x \<Rightarrow> (Inl x, s0)
      | Inr w \<Rightarrow>
     (let (u, s) = get_or_create_user s0 w in
      case get_market s k of
        Inl x \<Rightarrow> (Inl x, s)
      | Inr None \<Rightarrow> send_text e wa [Lit ''Market not found. Send 'markets'.''] s
      | Inr (Some m) \<Rightarrow>
          if \<not> is_open m then send_text e wa [Lit ''Market is closed.''] s
          else
            let sd = str_upper e sd0 in
            if sd \<notin> set [''YES'', ''NO''] then send_text e wa [Lit ''Invalid side.''] s
            else
              let p = (if sd = ''YES'' then yes_price m else no_price m);
                  cost = cost_of e n p
              in
              if balance u < cost then
                send_text e wa
                  [Lit ''Insufficient balance. Need '', F2 cost, Lit '', you have '',
                   F2 (balance u)] s
              else
                let u' = u\<lparr>balance := round_double e (balance u - cost)\<rparr>;
                    b = \<lparr>wa_id = w, market_id = k, side = sd, price = p, qty = n,
                         ts = now e\<rparr>;
                    m' = apply_price_impact m sd n;
                    s' = s\<lparr>users := (users s)(w \<mapsto> u'),
                           markets := AList.update k m' (markets s),
                           bets := bets s @ [b]\<rparr>
                in send_text e wa (confirmation k m' sd p n (balance u')) s'))"

subsection \<open>The webhook\<close>

text \<open>
  A POST request is modelled by what \<^verbatim>\<open>await request.json()\<close> makes of its
  body: the parsed JSON value, or the exception the parser raises.
\<close>

datatype request = Unparsable | Parsed json

definition request_json :: "request \<Rightarrow> exn + json" where
  "request_json r = (case r of Unparsable \<Rightarrow> Inl JSONDecodeError | Parsed d \<Rightarrow> Inr d)"

text \<open>
  The dict the handler returns: \<^verbatim>\<open>{"ok": True}\<close> or
  \<^verbatim>\<open>{"ok": False, "error": str(e)}\<close>, with the exception standing for its text.
\<close>

record reply =
  ok :: bool
  error :: "exn option"

definition ok_true :: reply where
  "ok_true = \<lparr>ok = True, error = None\<rparr>"

definition ok_false :: "exn \<Rightarrow> reply" where
  "ok_false x = \<lparr>ok = False, error = Some x\<rparr>"

text \<open>
  A statement that may raise, followed by the rest of the block: an exception ends the
  block, a value is handed on.
\<close>

definition and_then :: "exn + 'a \<Rightarrow> ('a \<Rightarrow> exn + 'b) \<Rightarrow> exn + 'b" where
  "and_then r f = (case r of Inl x \<Rightarrow> Inl x | Inr v \<Rightarrow> f v)"

text \<open>
  Lines 206 to 213: the path \<^verbatim>\<open>entry[0].changes[0].value.messages[0]\<close>.
  \<open>Inr None\<close> is the early \<^verbatim>\<open>return {"ok": True}\<close> for an empty message
  list.
\<close>

definition first_message :: "json \<Rightarrow> exn + json option" where
  "first_message data =
     and_then (dict_get data ''entry'') (\<lambda>en.
     and_then (item0 (py_or en (JArr []))) (\<lambda>entry.
     and_then (dict_get entry ''changes'') (\<lambda>ch.
     and_then (item0 (py_or ch (JArr []))) (\<lambda>changes.
     and_then (dict_get changes ''value'') (\<lambda>v.
     and_then (dict_get (py_or v (JObj [])) ''messages'') (\<lambda>ms.
       if \<not> truthy (py_or ms (JArr [])) then Inr None
       else and_then (item0 (py_or ms (JArr []))) (\<lambda>msg. Inr (Some msg))))))))"

text \<open>
  Lines 226 to 229, for a button id that is a string: \<open>Inr (Some (market_id, side))\<close>
  is the bet to place, \<open>Inr None\<close> falls through to the text branch.
\<close>

definition parse_button :: "env \<Rightarrow> string \<Rightarrow> exn + (int \<times> string) option" where
  "parse_button e btn_id =
     (let parts = split (CHR ''|'') btn_id in
      if length parts = 3 \<and> parts ! 0 = ''BET''
      then and_then (int_of_str e (parts ! 1)) (\<lambda>k. Inr (Some (k, parts ! 2)))
      else Inr None)"

text \<open>
  Lines 222 to 229: a button tap. Only a string has \<^verbatim>\<open>split\<close>.
\<close>

definition button_bet :: "env \<Rightarrow> json \<Rightarrow> exn + (int \<times> string) option" where
  "button_bet e msg =
     and_then (dict_get msg ''type'') (\<lambda>ty.
       if ty \<noteq> JStr ''interactive'' then Inr None
       else
     and_then (dict_get msg ''interactive'') (\<lambda>i.
     and_then (dict_get (py_or i (JObj [])) ''type'') (\<lambda>ity.
       if ity \<noteq> JStr ''button_reply'' then Inr None
       else
     and_then (item (py_or i (JObj [])) ''button_reply'') (\<lambda>br.
     and_then (item br ''id'') (\<lambda>btn_id.
       (case btn_id of JStr b \<Rightarrow> parse_button e b | _ \<Rightarrow> Inl AttributeError))))))"

text \<open>
  Lines 234 to 236: the normalised text of the message, empty unless its type is
  \<^verbatim>\<open>text\<close>. A body that is true and not a string has no \<^verbatim>\<open>strip\<close>.
\<close>

definition message_text :: "env \<Rightarrow> json \<Rightarrow> exn + string" where
  "message_text e msg =
     and_then (dict_get msg ''type'') (\<lambda>ty.
       if ty \<noteq> JStr ''text'' then Inr []
       else
     and_then (item msg ''text'') (\<lambda>tx.
     and_then (item tx ''body'') (\<lambda>b.
       (case py_or b (JStr []) of
          JStr str \<Rightarrow> Inr (str_lower e (str_strip e str))
        | _ \<Rightarrow> Inl AttributeError))))"

text \<open>
  Lines 238 to 252: the commands. \<^verbatim>\<open>db.get(User, wa_id)\<close> of the balance
  command binds the sender id again.
\<close>

definition dispatch_text :: "env \<Rightarrow> world \<Rightarrow> json \<Rightarrow> string \<Rightarrow> (exn + unit) \<times> world" where
  "dispatch_text e s wa t =
     (if t \<in> set [''hi'', ''hello'', ''start'']
      then send_text e wa [Lit ''Welcome! Type 'markets' to see questions, or 'balance'.''] s
      else if t = ''markets'' then send_text e wa (list_markets_text s) s
      else if t = ''balance'' then
        (case row_key e wa of
           Inl x \<Rightarrow> (Inl x, s)
         | Inr w \<Rightarrow>
             (case users s w of
                None \<Rightarrow> (Inl AttributeError, s)
              | Some u \<Rightarrow> send_text e wa [Lit ''Your balance: '', F2 (balance u)] s))
      else if str_isdigit e t then
        (case int_of_str e t of
           Inl x \<Rightarrow> (Inl x, s)
         | Inr k \<Rightarrow>
             (case get_market s k of
                Inl x \<Rightarrow> (Inl x, s)
              | Inr None \<Rightarrow> send_text e wa [Lit ''Market not found. Type 'markets'.''] s
              | Inr (Some m) \<Rightarrow> send_yes_no_buttons e wa k m s))
      else send_text e wa [Lit ''Send: markets | balance | <market_id> (example: 1)''] s)"

text \<open>
  Lines 218 to 254, for a sender id \<open>wa\<close>: create the user if need be, then the button
  branch or the text branch; both end in \<^verbatim>\<open>return {"ok": True}\<close>.
\<close>

definition handle_message :: "env \<Rightarrow> json \<Rightarrow> json \<Rightarrow> world \<Rightarrow> (exn + reply) \<times> world" where
  "handle_message e msg wa s0 =
     (case row_key e wa of
        Inl x \<Rightarrow> (Inl x, s0)
      | Inr w \<Rightarrow>
     (let s = snd (get_or_create_user s0 w) in
      case button_bet e msg of
        Inl x \<Rightarrow> (Inl x, s)
      | Inr (Some (k, sd)) \<Rightarrow>
          (case place_bet e s wa k sd 10 of
             (Inl x, s') \<Rightarrow> (Inl x, s')
           | (Inr _, s') \<Rightarrow> (Inr ok_true, s'))
      | Inr None \<Rightarrow>
          (case message_text e msg of
             Inl x \<Rightarrow> (Inl x, s)
           | Inr t \<Rightarrow>
               (case dispatch_text e s wa t of
                  (Inl x, s') \<Rightarrow> (Inl x, s')
                | (Inr _, s') \<Rightarrow> (Inr ok_true, s')))))"

text \<open>
  The body of the \<^verbatim>\<open>try\<close> block: no message or no sender is acknowledged at
  once, every other sender id, string or not, is served.
\<close>

definition inbound_try :: "env \<Rightarrow> json \<Rightarrow> world \<Rightarrow> (exn + reply) \<times> world" where
  "inbound_try e data s =
     (case first_message data of
        Inl x \<Rightarrow> (Inl x, s)
      | Inr None \<Rightarrow> (Inr ok_true, s)
      | Inr (Some msg) \<Rightarrow>
          (case dict_get msg ''from'' of
             Inl x \<Rightarrow> (Inl x, s)
           | Inr wa \<Rightarrow>
               if \<not> truthy wa then (Inr ok_true, s)
               else handle_message e msg wa s))"

text \<open>
  \<^verbatim>\<open>inbound(request)\<close>: the body is parsed before the \<^verbatim>\<open>try\<close>, so the
  parser's exception leaves the handler; every exception of the block itself becomes
  the reply \<^verbatim>\<open>{"ok": False, ...}\<close>. \<open>Inl\<close> is an exception that reaches the
  framework, \<open>Inr\<close> a returned dict.
\<close>

definition inbound :: "env \<Rightarrow> request \<Rightarrow> world \<Rightarrow> (exn + reply) \<times> world" where
  "inbound e r s =
     (case request_json r of
        Inl x \<Rightarrow> (Inl x, s)
      | Inr data \<Rightarrow>
          (case inbound_try e data s of
             (Inl x, s') \<Rightarrow> (Inr (ok_false x), s')
           | (Inr rep, s') \<Rightarrow> (Inr rep, s')))"

text \<open>
  The status the framework answers with: 200 with the returned dict, 500 when the
  handler raised.
\<close>

definition http_status :: "exn + reply \<Rightarrow> nat" where
  "http_status res = (case res of Inl x \<Rightarrow> 500 | Inr rep \<Rightarrow> 200)"

text \<open>
  The two facts about rounding that the balance needs: rounding keeps the order, and
  zero is a floating-point number.
\<close>

definition sound_rounding :: "env \<Rightarrow> bool" where
  "sound_rounding e =
     ((\<forall>x y. x \<le> y \<longrightarrow> round_double e x \<le> round_double e y) \<and> round_double e 0 = 0)"

text \<open>
  The states webhook events lead to from a state \<open>s0\<close>, whatever the database held
  when the process began to serve. Each event has its own environment: any platform,
  clock, string methods and driver, and any rounding with the two facts above.
\<close>

inductive reachable_from :: "world \<Rightarrow> world \<Rightarrow> bool" for s0 :: world where
  start: "reachable_from s0 s0"
| event: "reachable_from s0 s \<Longrightarrow> sound_rounding e \<Longrightarrow> reachable_from s0 (snd (inbound e r s))"

subsection \<open>Predicates of the properties\<close>

text \<open>Every stored balance is at least zero.\<close>

definition balances_nonneg :: "world \<Rightarrow> bool" where
  "balances_nonneg s = (\<forall>w u. users s w = Some u \<longrightarrow> 0 \<le> balance u)"

text \<open>The three tables of two states agree.\<close>

definition same_ledger :: "world \<Rightarrow> world \<Rightarrow> bool" where
  "same_ledger s t = (users s = users t \<and> markets s = markets t \<and> bets s = bets t)"

text \<open>
  The platform takes a payload: both credentials are set and the answer has a status
  below 300.
\<close>

definition accepted :: "env \<Rightarrow> payload \<Rightarrow> bool" where
  "accepted e p =
     (WHATSAPP_TOKEN e \<noteq> [] \<and> PHONE_NUMBER_ID e \<noteq> []
      \<and> (case graph_post e p of Unreachable \<Rightarrow> False | Answer code is_json \<Rightarrow> code < 300))"

text \<open>An integer that fits into 64 signed bits.\<close>

definition int64 :: "int \<Rightarrow> bool" where
  "int64 k = (- 9223372036854775808 \<le> k \<and> k \<le> 9223372036854775807)"

subsection \<open>Sample inputs\<close>

text \<open>
  The string methods as they act on ASCII text, for the sample environment:
  the 26 letters change case; \<^verbatim>\<open>strip\<close> removes tab, line feed, vertical tab,
  form feed, carriage return, the separators 0x1C to 0x1F and space from both ends;
  \<^verbatim>\<open>isdigit\<close> asks for at least one character, all of them digits;
  \<^verbatim>\<open>int\<close> drops tab, line feed, vertical tab, form feed, carriage return and
  space from both ends, allows one sign and single underscores between digits.
\<close>

definition ascii_upper :: "string \<Rightarrow> string" where
  "ascii_upper s =
     map (\<lambda>c. case map_of (zip ''abcdefghijklmnopqrstuvwxyz''
                  ''ABCDEFGHIJKLMNOPQRSTUVWXYZ'') c of Some d \<Rightarrow> d | None \<Rightarrow> c) s"

definition ascii_lower :: "string \<Rightarrow> string" where
  "ascii_lower s =
     map (\<lambda>c. case map_of (zip ''ABCDEFGHIJKLMNOPQRSTUVWXYZ''
                  ''abcdefghijklmnopqrstuvwxyz'') c of Some d \<Rightarrow> d | None \<Rightarrow> c) s"

definition trim :: "char list \<Rightarrow> string \<Rightarrow> string" where
  "trim ws s = rev (dropWhile (\<lambda>c. c \<in> set ws) (rev (dropWhile (\<lambda>c. c \<in> set ws) s)))"

definition ascii_strip :: "string \<Rightarrow> string" where
  "ascii_strip s =
     trim [CHR 0x09, CHR 0x0A, CHR 0x0B, CHR 0x0C, CHR 0x0D,
           CHR 0x1C, CHR 0x1D, CHR 0x1E, CHR 0x1F, CHR 0x20] s"

definition ascii_isdigit :: "string \<Rightarrow> bool" where
  "ascii_isdigit s = (s \<noteq> [] \<and> list_all (\<lambda>c. c \<in> set ''0123456789'') s)"

definition decimal :: "string \<Rightarrow> nat" where
  "decimal s = foldl (\<lambda>acc c. 10 * acc + (of_char c - 48)) 0 s"

definition ascii_int :: "string \<Rightarrow> exn + int" where
  "ascii_int s =
     (let t = trim [CHR 0x09, CHR 0x0A, CHR 0x0B, CHR 0x0C, CHR 0x0D, CHR 0x20] s;
          neg = (t \<noteq> [] \<and> hd t = CHR ''-'');
          body = (if t \<noteq> [] \<and> (hd t = CHR ''-'' \<or> hd t = CHR ''+'') then tl t else t);
          groups = split (CHR ''_'') body
      in if list_all ascii_isdigit groups
         then Inr ((if neg then - 1 else 1) * int (decimal (concat groups)))
         else Inl ValueError)"

text \<open>
  A configured environment whose platform accepts every payload. Its arithmetic is
  exact, its string methods are the ASCII ones, and its driver keeps the sender 123 as
  the text 123 and refuses every other id that is not a string.
\<close>

definition accepting :: env where
  "accepting =
     \<lparr>WHATSAPP_TOKEN = ''token'', PHONE_NUMBER_ID = ''1555'',
      graph_post = (\<lambda>p. Answer 200 True), now = 1700000000,
      round_double = (\<lambda>x. x),
      str_upper = ascii_upper, str_lower = ascii_lower, str_strip = ascii_strip,
      str_isdigit = ascii_isdigit, int_of_str = ascii_int,
      bind_key = (\<lambda>j. if j = JInt 123 then Inr ''123'' else Inl InterfaceError)\<rparr>"

text \<open>A market quoted as the first seed market is.\<close>

definition even_market :: Market where
  "even_market =
     \<lparr>question = ''Will India win the next match?'', is_open = True,
      yes_price = 50 / 100, no_price = 50 / 100\<rparr>"

text \<open>A market whose YES quote lies above the clamp.\<close>

definition high_market :: Market where
  "high_market =
     \<lparr>question = ''Will India win the next match?'', is_open = True,
      yes_price = 995 / 1000, no_price = 5 / 1000\<rparr>"


text \<open>
  Sample states: a database that holds the two markets of lines 131 and 132 and
  nothing else, one whose one user holds 995, one whose only market is closed, and one
  whose one user has just been created.
\<close>

definition seeded :: world where
  "seeded =
     \<lparr>users = Map.empty,
      markets =
        [(1, even_market),
         (2, \<lparr>question = ''Will it rain in Mumbai tomorrow?'', is_open = True,
               yes_price = 45 / 100, no_price = 55 / 100\<rparr>)],
      bets = [], sent = []\<rparr>"

definition spent :: world where
  "spent = seeded\<lparr>users := [''919000000001'' \<mapsto> \<lparr>balance = 995\<rparr>]\<rparr>"

definition closed_world :: world where
  "closed_world = seeded\<lparr>markets := [(1, even_market\<lparr>is_open := False\<rparr>)]\<rparr>"

definition joined :: world where
  "joined = seeded\<lparr>users := [''919000000001'' \<mapsto> \<lparr>balance = 1000\<rparr>]\<rparr>"

text \<open>The webhook body that carries one message.\<close>

definition event_with :: "json \<Rightarrow> json" where
  "event_with msg =
     JObj [(''entry'',
       JArr [JObj [(''changes'',
         JArr [JObj [(''value'', JObj [(''messages'', JArr [msg])])]])]])]"

definition text_message :: "json \<Rightarrow> string \<Rightarrow> json" where
  "text_message wa b =
     JObj [(''from'', wa), (''type'', JStr ''text''),
           (''text'', JObj [(''body'', JStr b)])]"

definition button_message :: "json \<Rightarrow> string \<Rightarrow> json" where
  "button_message wa btn_id =
     JObj [(''from'', wa), (''type'', JStr ''interactive''),
           (''interactive'',
            JObj [(''type'', JStr ''button_reply''),
                  (''button_reply'', JObj [(''id'', JStr btn_id)])])]"

text \<open>The first user, and the sender 123, tap YES on market 1.\<close>

definition tap_yes :: request where
  "tap_yes = Parsed (event_with (button_message (JStr ''919000000001'') ''BET|1|YES''))"

definition tap_yes_123 :: request where
  "tap_yes_123 = Parsed (event_with (button_message (JInt 123) ''BET|1|YES''))"

section \<open>Properties of the price update\<close>

lemma yes_price_after_YES:
  "yes_price (apply_price_impact m ''YES'' n) =
     min (99 / 100) (yes_price m + min (1 / 10) ((1 / 1000) * of_int n))"
  by (simp add: apply_price_impact_def Let_def)

lemma no_price_after_YES:
  "no_price (apply_price_impact m ''YES'' n) =
     max (1 / 100) (1 - yes_price (apply_price_impact m ''YES'' n))"
  by (simp add: apply_price_impact_def Let_def)

lemma no_price_after_NO:
  "no_price (apply_price_impact m ''NO'' n) =
     min (99 / 100) (no_price m + min (1 / 10) ((1 / 1000) * of_int n))"
  by (simp add: apply_price_impact_def Let_def)

lemma yes_price_after_NO:
  "yes_price (apply_price_impact m ''NO'' n) =
     max (1 / 100) (1 - no_price (apply_price_impact m ''NO'' n))"
  by (simp add: apply_price_impact_def Let_def)

lemma apply_price_impact_keeps:
  "question (apply_price_impact m sd n) = question m"
  "is_open (apply_price_impact m sd n) = is_open m"
  by (simp_all add: apply_price_impact_def Let_def)


text \<open>
  C2. The update rule, for every market and quantity: the impact is
  \<open>min 0.10 (0.001 * qty)\<close>; for YES the YES quote becomes
  \<open>min 0.99 (yes_price + impact)\<close> and the NO quote \<open>max 0.01 (1 - yes_price)\<close> of
  the new YES quote; for NO the same with the sides exchanged. For a positive quantity
  and a chosen-side quote of at most 0.99 before the fill, the chosen side's quote does
  not decrease, and it rises strictly unless it ends at 0.99.
\<close>

theorem price_impact_rule:
  "yes_price (apply_price_impact m ''YES'' n) =
     min (99 / 100) (yes_price m + min (1 / 10) ((1 / 1000) * of_int n))
   \<and> no_price (apply_price_impact m ''YES'' n) =
     max (1 / 100) (1 - yes_price (apply_price_impact m ''YES'' n))
   \<and> no_price (apply_price_impact m ''NO'' n) =
     min (99 / 100) (no_price m + min (1 / 10) ((1 / 1000) * of_int n))
   \<and> yes_price (apply_price_impact m ''NO'' n) =
     max (1 / 100) (1 - no_price (apply_price_impact m ''NO'' n))
   \<and> (0 < n \<and> yes_price m \<le> 99 / 100 \<longrightarrow>
        yes_price m \<le> yes_price (apply_price_impact m ''YES'' n)
        \<and> (yes_price m < yes_price (apply_price_impact m ''YES'' n)
           \<or> yes_price (apply_price_impact m ''YES'' n) = 99 / 100))
   \<and> (0 < n \<and> no_price m \<le> 99 / 100 \<longrightarrow>
        no_price m \<le> no_price (apply_price_impact m ''NO'' n)
        \<and> (no_price m < no_price (apply_price_impact m ''NO'' n)
           \<or> no_price (apply_price_impact m ''NO'' n) = 99 / 100))"
proof -
  have pos: "0 < n \<Longrightarrow> 0 < min (1 / 10) ((1 / 1000) * real_of_int n)"
    by (simp add: min_def)
  show ?thesis
    unfolding yes_price_after_YES no_price_after_NO
    using pos
    by (auto simp: apply_price_impact_def Let_def min_def)
qed

theorem price_impact_rule_witness:
  "(0::int) < 10 \<and> yes_price even_market \<le> 99 / 100
   \<and> yes_price (apply_price_impact even_market ''YES'' 10) = 51 / 100
   \<and> no_price (apply_price_impact even_market ''YES'' 10) = 49 / 100
   \<and> yes_price even_market < yes_price (apply_price_impact even_market ''YES'' 10)"
  using price_impact_rule [of even_market 10]
  by (simp add: even_market_def)

text \<open>
  Without the bound on the quote before the fill the chosen side can fall: a YES quote
  of 0.995 is clamped down to 0.99 by a YES fill of quantity 1.
\<close>

theorem price_impact_decrease_counterexample:
  "(0::int) < 1
   \<and> yes_price (apply_price_impact high_market ''YES'' 1) < yes_price high_market"
  by (simp add: apply_price_impact_def high_market_def Let_def)




section \<open>Users and fills\<close>

lemma send_whatsapp_ledger:
  "users (snd (send_whatsapp e p s)) = users s"
  "markets (snd (send_whatsapp e p s)) = markets s"
  "bets (snd (send_whatsapp e p s)) = bets s"
  by (simp_all add: send_whatsapp_def split: http.split)

lemma send_text_ledger:
  "users (snd (send_text e wa b s)) = users s"
  "markets (snd (send_text e wa b s)) = markets s"
  "bets (snd (send_text e wa b s)) = bets s"
  by (simp_all add: send_text_def send_whatsapp_ledger)

lemma sent_send_whatsapp:
  "sent (snd (send_whatsapp e p s)) = sent s @ (if accepted e p then [p] else [])"
  by (simp add: send_whatsapp_def accepted_def split: http.split)

lemma get_or_create_user_tables:
  "markets (snd (get_or_create_user s w)) = markets s"
  "bets (snd (get_or_create_user s w)) = bets s"
  "sent (snd (get_or_create_user s w)) = sent s"
  by (simp_all add: get_or_create_user_def Let_def split: option.split)

lemma get_or_create_user_stored:
  "users (snd (get_or_create_user s w)) w = Some (fst (get_or_create_user s w))"
  by (simp add: get_or_create_user_def Let_def split: option.split)

lemma get_market_tables: "markets s = markets t \<Longrightarrow> get_market s k = get_market t k"
  by (simp add: get_market_def)

lemma row_key_JStr: "row_key e (JStr w) = Inr w"
  by (simp add: row_key_def)

text \<open>
  C8. \<^verbatim>\<open>get_or_create_user\<close> is idempotent. A second call with the same id
  returns the record and the state of the first; the record it returns is the one the
  table holds; for an unknown id the first call stores a user with balance 1000; for a
  known id the call returns the stored record as it is and leaves the state alone, so a
  balance is never reset.
\<close>

theorem get_or_create_user_idempotent:
  "get_or_create_user (snd (get_or_create_user s w)) w = get_or_create_user s w
   \<and> users (snd (get_or_create_user s w)) w = Some (fst (get_or_create_user s w))
   \<and> (users s w = None \<longrightarrow>
        get_or_create_user s w
          = (\<lparr>balance = 1000\<rparr>, s\<lparr>users := (users s)(w \<mapsto> \<lparr>balance = 1000\<rparr>)\<rparr>))
   \<and> (users s w = Some u \<longrightarrow> get_or_create_user s w = (u, s))"
  by (simp add: get_or_create_user_def Let_def split: option.split)

theorem get_or_create_user_idempotent_witness:
  "users seeded ''919000000001'' = None
   \<and> fst (get_or_create_user seeded ''919000000001'') = \<lparr>balance = 1000\<rparr>
   \<and> users spent ''919000000001'' = Some \<lparr>balance = 995\<rparr>
   \<and> get_or_create_user spent ''919000000001'' = (\<lparr>balance = 995\<rparr>, spent)
   \<and> get_or_create_user (snd (get_or_create_user seeded ''919000000001'')) ''919000000001''
       = get_or_create_user seeded ''919000000001''"
  using get_or_create_user_idempotent [of seeded "''919000000001''"]
    get_or_create_user_idempotent [of spent "''919000000001''" "\<lparr>balance = 995\<rparr>"]
  by (simp add: seeded_def spent_def get_or_create_user_def Let_def)


lemma accepting_accepts: "accepted accepting p"
  by (simp add: accepted_def accepting_def)

lemma accepting_send_text:
  "send_text accepting wa body s = (Inr (), s\<lparr>sent := sent s @ [Text wa body]\<rparr>)"
  by (simp add: send_text_def send_whatsapp_def accepting_def)

lemma accepting_upper:
  "str_upper accepting ''yes'' = ''YES''" "str_upper accepting ''YES'' = ''YES''"
  "str_upper accepting ''maybe'' = ''MAYBE''"
  by (simp_all add: accepting_def ascii_upper_def)

lemma accepting_cost: "cost_of accepting n p = real_of_int n * p"
  by (simp add: cost_of_def accepting_def)

lemma seeded_markets:
  "get_market seeded 1 = Inr (Some even_market)" "get_market seeded 7 = Inr None"
  "map_of (markets seeded) 1 = Some even_market" "map_of (markets seeded) 7 = None"
  by (simp_all add: get_market_def seeded_def)



text \<open>
  The four refusals of \<^verbatim>\<open>place_bet\<close>, for a user id \<open>w\<close> that is a string and
  a market id the store can bind. \<open>s\<close> is the state after the user was looked up or
  created. For an unknown market, a closed market, a side that is neither YES nor NO in
  upper case, and a balance below the cost, the call is the sending of the explanatory
  text on \<open>s\<close>, and the users, markets and bets after it are those of \<open>s\<close>.
\<close>

lemma place_bet_refusal:
  assumes "get_or_create_user s0 w = (u, s)"
    and "r = place_bet e s0 (JStr w) k sd n"
    and "cost = cost_of e n (if str_upper e sd = ''YES'' then yes_price m else no_price m)"
  shows "(get_market s0 k = Inr None \<longrightarrow>
            r = send_text e (JStr w) [Lit ''Market not found. Send 'markets'.''] s
            \<and> same_ledger (snd r) s)
       \<and> (get_market s0 k = Inr (Some m) \<and> \<not> is_open m \<longrightarrow>
            r = send_text e (JStr w) [Lit ''Market is closed.''] s
            \<and> same_ledger (snd r) s)
       \<and> (get_market s0 k = Inr (Some m) \<and> is_open m
            \<and> str_upper e sd \<noteq> ''YES'' \<and> str_upper e sd \<noteq> ''NO'' \<longrightarrow>
            r = send_text e (JStr w) [Lit ''Invalid side.''] s
            \<and> same_ledger (snd r) s)
       \<and> (get_market s0 k = Inr (Some m) \<and> is_open m
            \<and> (str_upper e sd = ''YES'' \<or> str_upper e sd = ''NO'') \<and> balance u < cost \<longrightarrow>
            r = send_text e (JStr w)
                  [Lit ''Insufficient balance. Need '', F2 cost, Lit '', you have '',
                   F2 (balance u)] s
            \<and> same_ledger (snd r) s)"
proof -
  have tables: "markets s = markets s0"
    using get_or_create_user_tables [of s0 w] assms(1) by simp
  note gm = get_market_tables [OF tables, of k]
  have keep: "same_ledger (snd (send_text e wa body s)) s" for wa body
    by (simp add: same_ledger_def send_text_ledger)
  have a: "get_market s0 k = Inr None \<Longrightarrow>
      r = send_text e (JStr w) [Lit ''Market not found. Send 'markets'.''] s"
    using assms(1,2) gm by (simp add: place_bet_def row_key_JStr)
  have b: "get_market s0 k = Inr (Some m) \<Longrightarrow> \<not> is_open m \<Longrightarrow>
      r = send_text e (JStr w) [Lit ''Market is closed.''] s"
    using assms(1,2) gm by (simp add: place_bet_def row_key_JStr)
  have c: "get_market s0 k = Inr (Some m) \<Longrightarrow> is_open m \<Longrightarrow>
      str_upper e sd \<noteq> ''YES'' \<Longrightarrow> str_upper e sd \<noteq> ''NO'' \<Longrightarrow>
      r = send_text e (JStr w) [Lit ''Invalid side.''] s"
    using assms(1,2) gm by (simp add: place_bet_def row_key_JStr Let_def)
  have d: "get_market s0 k = Inr (Some m) \<Longrightarrow> is_open m \<Longrightarrow>
      str_upper e sd = ''YES'' \<or> str_upper e sd = ''NO'' \<Longrightarrow> balance u < cost \<Longrightarrow>
      r = send_text e (JStr w)
            [Lit ''Insufficient balance. Need '', F2 cost, Lit '', you have '',
             F2 (balance u)] s"
    using assms gm by (auto simp: place_bet_def row_key_JStr Let_def)
  show ?thesis
    using a b c d keep by simp
qed

text \<open>
  C3. What \<^verbatim>\<open>place_bet\<close> does with a market id that no market has and that
  does not fit into 64 signed bits, here 2 to the power 63: \<^verbatim>\<open>db.get\<close> at line
  158 raises \<^verbatim>\<open>OverflowError\<close> before the test \<^verbatim>\<open>if not m\<close>, so the
  text of line 160 is not sent. The state is the one after the user was looked up or
  created, and nothing was posted.
\<close>

theorem place_bet_unbound_market_id:
  "place_bet e s (JStr w) 9223372036854775808 sd n
     = (Inl OverflowError, snd (get_or_create_user s w))
   \<and> sent (snd (place_bet e s (JStr w) 9223372036854775808 sd n)) = sent s"
proof -
  obtain u s1 where g: "get_or_create_user s w = (u, s1)"
    by (cases "get_or_create_user s w")
  have "sent s1 = sent s"
    using get_or_create_user_tables(3) [of s w] g by simp
  then show ?thesis
    by (simp add: place_bet_def row_key_JStr get_market_def g)
qed

section \<open>The webhook and the invariants\<close>

lemma and_then_Inr [simp]: "and_then (Inr v) f = f v"
  by (simp add: and_then_def)

lemma and_then_Inl [simp]: "and_then (Inl x) f = Inl x"
  by (simp add: and_then_def)

lemma dispatch_text_ledger:
  "users (snd (dispatch_text e s wa t)) = users s"
  "markets (snd (dispatch_text e s wa t)) = markets s"
  "bets (snd (dispatch_text e s wa t)) = bets s"
  by (simp_all add: dispatch_text_def send_text_ledger send_yes_no_buttons_def
      send_whatsapp_ledger split: option.split sum.split)

lemma place_bet_bets:
  "bets (snd (place_bet e s wa k sd n)) = bets s
   \<or> (\<exists>b. bets (snd (place_bet e s wa k sd n)) = bets s @ [b] \<and> qty b = n)"
proof (cases "row_key e wa")
  case (Inl x)
  then show ?thesis by (simp add: place_bet_def)
next
  case (Inr w)
  obtain u s1 where g: "get_or_create_user s w = (u, s1)" by (cases "get_or_create_user s w")
  have s1: "bets s1 = bets s"
    using get_or_create_user_tables(2) [of s w] g by simp
  show ?thesis
    by (simp add: place_bet_def Inr g Let_def send_text_ledger s1
        split: option.split sum.split)
qed

lemma handle_message_snd:
  "snd (handle_message e msg wa s) =
     (case row_key e wa of
        Inl x \<Rightarrow> s
      | Inr w \<Rightarrow>
          (case button_bet e msg of
             Inl x \<Rightarrow> snd (get_or_create_user s w)
           | Inr None \<Rightarrow>
               (case message_text e msg of
                  Inl x \<Rightarrow> snd (get_or_create_user s w)
                | Inr t \<Rightarrow> snd (dispatch_text e (snd (get_or_create_user s w)) wa t))
           | Inr (Some ks) \<Rightarrow>
               snd (place_bet e (snd (get_or_create_user s w)) wa (fst ks) (snd ks) 10)))"
  by (simp add: handle_message_def Let_def split: sum.split option.split prod.split)

lemma handle_message_bets:
  "bets (snd (handle_message e msg wa s)) = bets s
   \<or> (\<exists>b. bets (snd (handle_message e msg wa s)) = bets s @ [b] \<and> qty b = 10)"
proof (cases "row_key e wa")
  case (Inl x)
  then show ?thesis by (simp add: handle_message_snd)
next
  case (Inr w)
  let ?s = "snd (get_or_create_user s w)"
  have s: "bets ?s = bets s" by (simp add: get_or_create_user_tables)
  have p: "bets (snd (place_bet e ?s wa k sd 10)) = bets s
     \<or> (\<exists>b. bets (snd (place_bet e ?s wa k sd 10)) = bets s @ [b] \<and> qty b = 10)" for k sd
    using place_bet_bets [of e ?s wa k sd 10] s by simp
  show ?thesis
    unfolding handle_message_snd
    using p by (simp add: Inr s dispatch_text_ledger split: sum.split option.split)
qed

lemma inbound_try_bets:
  "bets (snd (inbound_try e data s)) = bets s
   \<or> (\<exists>b. bets (snd (inbound_try e data s)) = bets s @ [b] \<and> qty b = 10)"
  using handle_message_bets
  by (simp add: inbound_try_def split: sum.split option.split)

lemma inbound_snd:
  "snd (inbound e (Parsed data) s) = snd (inbound_try e data s)"
  "snd (inbound e Unparsable s) = s"
  by (simp_all add: inbound_def request_json_def split: prod.split sum.split)

lemma inbound_bets:
  "bets (snd (inbound e r s)) = bets s
   \<or> (\<exists>b. bets (snd (inbound e r s)) = bets s @ [b] \<and> qty b = 10)"
  using inbound_try_bets by (cases r) (simp_all add: inbound_snd)

text \<open>
  C10. One webhook event leaves the bets as they are or appends one bet of quantity 10:
  the button branch is the only caller of \<^verbatim>\<open>place_bet\<close> and passes 10. Hence in
  every state that webhook events lead to from a state \<open>s0\<close>, the bets are those of
  \<open>s0\<close> followed by bets of quantity 10 only. This holds for every sender id, string or
  not, and every behaviour of the platform, the string methods and the driver.
\<close>

theorem webhook_bets_have_qty_10:
  "(bets (snd (inbound e r s)) = bets s
     \<or> (\<exists>b. bets (snd (inbound e r s)) = bets s @ [b] \<and> qty b = 10))
   \<and> (reachable_from s0 t \<longrightarrow>
        (\<exists>new. bets t = bets s0 @ new \<and> list_all (\<lambda>b. qty b = 10) new))"
proof -
  have "reachable_from s0 t \<Longrightarrow>
      \<exists>new. bets t = bets s0 @ new \<and> list_all (\<lambda>b. qty b = 10) new"
  proof (induction rule: reachable_from.induct)
    case start
    show ?case by simp
  next
    case (event s e r)
    then obtain new where new: "bets s = bets s0 @ new" "list_all (\<lambda>b. qty b = 10) new"
      by blast
    from inbound_bets [of e r s] show ?case
    proof
      assume "bets (snd (inbound e r s)) = bets s"
      with new show ?thesis by auto
    next
      assume "\<exists>b. bets (snd (inbound e r s)) = bets s @ [b] \<and> qty b = 10"
      then obtain b where "bets (snd (inbound e r s)) = bets s0 @ (new @ [b])" "qty b = 10"
        using new(1) by auto
      with new(2) show ?thesis by (intro exI [of _ "new @ [b]"]) simp
    qed
  qed
  with inbound_bets show ?thesis by blast
qed

lemma first_message_event_with: "first_message (event_with msg) = Inr (Some msg)"
  by (simp add: first_message_def event_with_def py_or_def)

lemma button_message_from: "dict_get (button_message wa b) ''from'' = Inr wa"
  by (simp add: button_message_def)

lemma ascii_int_1: "ascii_int ''1'' = Inr 1"
  by (simp add: ascii_int_def trim_def ascii_isdigit_def decimal_def Let_def)

lemma button_bet_tap:
  "button_bet accepting (button_message wa ''BET|1|YES'') = Inr (Some (1, ''YES''))"
proof -
  have "parse_button accepting ''BET|1|YES'' = Inr (Some (1, ''YES''))"
    by (simp add: parse_button_def accepting_def ascii_int_1 Let_def)
  then show ?thesis
    by (simp add: button_bet_def button_message_def py_or_def)
qed

lemma sound_accepting: "sound_rounding accepting"
  by (simp add: sound_rounding_def accepting_def)

lemma accepting_keys:
  "row_key accepting (JStr w) = Inr w" "row_key accepting (JInt 123) = Inr ''123''"
  by (simp_all add: row_key_def accepting_def)

lemma tap_state:
  assumes "truthy wa" and "row_key accepting wa = Inr w"
  shows "snd (inbound accepting (Parsed (event_with (button_message wa ''BET|1|YES''))) s)
     = snd (place_bet accepting (snd (get_or_create_user s w)) wa 1 ''YES'' 10)"
  using assms
  by (simp add: inbound_snd inbound_try_def first_message_event_with button_message_from
      handle_message_snd button_bet_tap)

lemma tap_fill:
  assumes "truthy wa" and "row_key accepting wa = Inr w" and "users s w = None"
    and "get_market s 1 = Inr (Some m)" and "is_open m" and "10 * yes_price m \<le> 1000"
  shows "snd (inbound accepting (Parsed (event_with (button_message wa ''BET|1|YES''))) s)
     = s\<lparr>users := (users s)(w \<mapsto> \<lparr>balance = 1000 - 10 * yes_price m\<rparr>),
         markets := AList.update 1 (apply_price_impact m ''YES'' 10) (markets s),
         bets := bets s @ [\<lparr>wa_id = w, market_id = 1, side = ''YES'', price = yes_price m,
           qty = 10, ts = 1700000000\<rparr>],
         sent := sent s @ [Text wa (confirmation 1 (apply_price_impact m ''YES'' 10) ''YES''
           (yes_price m) 10 (1000 - 10 * yes_price m))]\<rparr>"
proof -
  let ?s = "snd (get_or_create_user s w)"
  have s: "?s = s\<lparr>users := (users s)(w \<mapsto> \<lparr>balance = 1000\<rparr>)\<rparr>"
    using assms(3) by (simp add: get_or_create_user_def Let_def)
  have g: "get_or_create_user ?s w = (\<lparr>balance = 1000\<rparr>, ?s)"
    using assms(3) by (simp add: get_or_create_user_def Let_def)
  have m: "get_market ?s 1 = Inr (Some m)"
    using assms(4) by (simp add: get_market_def get_or_create_user_tables)
  have rd: "round_double accepting x = x" for x by (simp add: accepting_def)
  have nw: "now accepting = 1700000000" by (simp add: accepting_def)
  have "snd (place_bet accepting ?s wa 1 ''YES'' 10)
     = s\<lparr>users := (users s)(w \<mapsto> \<lparr>balance = 1000 - 10 * yes_price m\<rparr>),
         markets := AList.update 1 (apply_price_impact m ''YES'' 10) (markets s),
         bets := bets s @ [\<lparr>wa_id = w, market_id = 1, side = ''YES'', price = yes_price m,
           qty = 10, ts = 1700000000\<rparr>],
         sent := sent s @ [Text wa (confirmation 1 (apply_price_impact m ''YES'' 10) ''YES''
           (yes_price m) 10 (1000 - 10 * yes_price m))]\<rparr>"
    using assms(5,6)
    by (simp add: place_bet_def assms(2) g m accepting_upper accepting_cost Let_def
        accepting_send_text rd nw)
       (simp add: s)
  then show ?thesis by (simp add: tap_state [OF assms(1,2)])
qed

theorem webhook_bets_have_qty_10_witness:
  "reachable_from seeded (snd (inbound accepting tap_yes_123 (snd (inbound accepting tap_yes seeded))))
   \<and> map wa_id (bets (snd (inbound accepting tap_yes_123 (snd (inbound accepting tap_yes seeded)))))
       = [''919000000001'', ''123'']
   \<and> map qty (bets (snd (inbound accepting tap_yes_123 (snd (inbound accepting tap_yes seeded)))))
       = [10, 10]
   \<and> (\<exists>new. bets (snd (inbound accepting tap_yes_123 (snd (inbound accepting tap_yes seeded))))
          = bets seeded @ new \<and> list_all (\<lambda>b. qty b = 10) new)"
proof -
  let ?s1 = "snd (inbound accepting tap_yes seeded)"
  let ?t = "snd (inbound accepting tap_yes_123 ?s1)"
  have r: "reachable_from seeded ?t"
    by (intro reachable_from.event reachable_from.start sound_accepting)
  have s1: "?s1 = seeded\<lparr>users := (users seeded)(''919000000001'' \<mapsto>
           \<lparr>balance = 1000 - 10 * yes_price even_market\<rparr>),
         markets := AList.update 1 (apply_price_impact even_market ''YES'' 10) (markets seeded),
         bets := bets seeded @ [\<lparr>wa_id = ''919000000001'', market_id = 1, side = ''YES'',
           price = yes_price even_market, qty = 10, ts = 1700000000\<rparr>],
         sent := sent seeded @ [Text (JStr ''919000000001'')
           (confirmation 1 (apply_price_impact even_market ''YES'' 10) ''YES''
             (yes_price even_market) 10 (1000 - 10 * yes_price even_market))]\<rparr>"
    unfolding tap_yes_def
    by (rule tap_fill) (simp_all add: accepting_keys seeded_markets, simp_all add: seeded_def even_market_def)
  have u: "users ?s1 ''123'' = None"
    unfolding s1 by (simp add: seeded_def)
  have m: "get_market ?s1 1 = Inr (Some (apply_price_impact even_market ''YES'' 10))"
    unfolding s1 by (simp add: get_market_def seeded_def)
  have o: "is_open (apply_price_impact even_market ''YES'' 10)"
    "10 * yes_price (apply_price_impact even_market ''YES'' 10) \<le> 1000"
    by (simp_all add: apply_price_impact_def even_market_def Let_def)
  have t: "bets ?t = bets ?s1 @ [\<lparr>wa_id = ''123'', market_id = 1, side = ''YES'',
      price = yes_price (apply_price_impact even_market ''YES'' 10), qty = 10,
      ts = 1700000000\<rparr>]"
    unfolding tap_yes_123_def
    by (subst tap_fill [OF _ accepting_keys(2) u m o]) simp_all
  have b: "bets ?t = [\<lparr>wa_id = ''919000000001'', market_id = 1, side = ''YES'',
        price = yes_price even_market, qty = 10, ts = 1700000000\<rparr>,
      \<lparr>wa_id = ''123'', market_id = 1, side = ''YES'',
        price = yes_price (apply_price_impact even_market ''YES'' 10), qty = 10,
        ts = 1700000000\<rparr>]"
    unfolding t unfolding s1 by (simp add: seeded_def)
  have e: "bets seeded = []" by (simp add: seeded_def)
  show ?thesis
    using r e webhook_bets_have_qty_10 [of accepting tap_yes seeded seeded ?t]
    by (simp add: b)
qed

lemma get_or_create_user_nonneg:
  "balances_nonneg s \<Longrightarrow> balances_nonneg (snd (get_or_create_user s w))"
  by (auto simp: balances_nonneg_def get_or_create_user_def Let_def split: option.split)

lemma place_bet_nonneg:
  assumes "sound_rounding e" and "balances_nonneg s"
  shows "balances_nonneg (snd (place_bet e s wa k sd n))"
proof (cases "row_key e wa")
  case (Inl x)
  then show ?thesis using assms(2) by (simp add: place_bet_def)
next
  case (Inr w)
  obtain u s1 where g: "get_or_create_user s w = (u, s1)" by (cases "get_or_create_user s w")
  have s1: "balances_nonneg s1"
    using get_or_create_user_nonneg [OF assms(2), of w] g by simp
  have rd: "0 \<le> round_double e (b - c)" if "\<not> b < c" for b c
  proof -
    from that have "0 \<le> b - c" by simp
    with assms(1) have "round_double e 0 \<le> round_double e (b - c)"
      unfolding sound_rounding_def by blast
    with assms(1) show ?thesis by (simp add: sound_rounding_def)
  qed
  have upd: "\<not> balance u < c \<Longrightarrow>
      balances_nonneg (s1\<lparr>users := (users s1)(w \<mapsto> u\<lparr>balance := round_double e (balance u - c)\<rparr>),
         markets := ms, bets := bs\<rparr>)" for c ms bs
    using s1 rd by (auto simp: balances_nonneg_def)
  have keep: "balances_nonneg (snd (send_text e wa body s')) = balances_nonneg s'" for body s'
    by (simp add: balances_nonneg_def send_text_ledger)
  show ?thesis
    using s1 upd
    by (simp add: place_bet_def Inr g Let_def keep split: option.split sum.split)
qed

lemma handle_message_nonneg:
  assumes "sound_rounding e" and "balances_nonneg s"
  shows "balances_nonneg (snd (handle_message e msg wa s))"
proof (cases "row_key e wa")
  case (Inl x)
  then show ?thesis using assms(2) by (simp add: handle_message_snd)
next
  case (Inr w)
  let ?s = "snd (get_or_create_user s w)"
  have s: "balances_nonneg ?s" using assms(2) by (rule get_or_create_user_nonneg)
  have d: "balances_nonneg (snd (dispatch_text e ?s wa t))" for t
    using s by (simp add: balances_nonneg_def dispatch_text_ledger)
  have p: "balances_nonneg (snd (place_bet e ?s wa k sd 10))" for k sd
    using assms(1) s by (rule place_bet_nonneg)
  show ?thesis
    unfolding handle_message_snd
    using s d p by (simp add: Inr split: sum.split option.split)
qed

lemma inbound_nonneg:
  assumes "sound_rounding e" and "balances_nonneg s"
  shows "balances_nonneg (snd (inbound e r s))"
proof -
  have "balances_nonneg (snd (inbound_try e data s))" for data
    using assms(2) handle_message_nonneg [OF assms]
    by (simp add: inbound_try_def split: sum.split option.split)
  then show ?thesis using assms(2) by (cases r) (simp_all add: inbound_snd)
qed

text \<open>
  C9. No operation makes a balance negative. With a rounding that keeps the order and
  keeps zero, from a state whose balances are all at least zero
  \<^verbatim>\<open>get_or_create_user\<close>, \<^verbatim>\<open>place_bet\<close> (for every user id, market, side
  and quantity, also a negative one) and a webhook event lead to such a state again: a
  debit is made only when the balance is not below the cost, and the rounded difference
  of the two is then at least zero. A new user starts at 1000. So the balances stay at
  least zero in every state that webhook events lead to from such a state.
\<close>

theorem balances_stay_nonneg:
  "(sound_rounding e \<and> balances_nonneg s \<longrightarrow>
      balances_nonneg (snd (get_or_create_user s w))
      \<and> balances_nonneg (snd (place_bet e s wa k sd n))
      \<and> balances_nonneg (snd (inbound e r s)))
   \<and> (users s w = None \<longrightarrow> balance (fst (get_or_create_user s w)) = 1000)
   \<and> (balances_nonneg s0 \<and> reachable_from s0 t \<longrightarrow> balances_nonneg t)"
proof -
  have a: "reachable_from s0 t \<Longrightarrow> balances_nonneg s0 \<Longrightarrow> balances_nonneg t"
  proof (induction rule: reachable_from.induct)
    case start
    then show ?case by simp
  next
    case (event s e r)
    then show ?case by (simp add: inbound_nonneg)
  qed
  have b: "users s w = None \<Longrightarrow> balance (fst (get_or_create_user s w)) = 1000"
    by (simp add: get_or_create_user_def Let_def)
  show ?thesis
    using a b get_or_create_user_nonneg place_bet_nonneg inbound_nonneg by blast
qed

theorem balances_stay_nonneg_witness:
  "sound_rounding accepting
   \<and> balances_nonneg joined
   \<and> balances_nonneg (snd (place_bet accepting joined (JStr ''919000000001'') 1 ''YES'' 10))
   \<and> users (snd (place_bet accepting joined (JStr ''919000000001'') 1 ''YES'' 10))
        ''919000000001'' = Some \<lparr>balance = 995\<rparr>
   \<and> users seeded ''919000000001'' = None
   \<and> balance (fst (get_or_create_user seeded ''919000000001'')) = 1000
   \<and> balances_nonneg seeded
   \<and> reachable_from seeded (snd (inbound accepting tap_yes seeded))
   \<and> balances_nonneg (snd (inbound accepting tap_yes seeded))"
proof -
  have j: "balances_nonneg joined" "balances_nonneg seeded"
    by (simp_all add: balances_nonneg_def joined_def seeded_def)
  have n: "users seeded ''919000000001'' = None"
    by (simp add: seeded_def)
  have r: "reachable_from seeded (snd (inbound accepting tap_yes seeded))"
    by (intro reachable_from.event reachable_from.start sound_accepting)
  have g: "get_or_create_user joined ''919000000001'' = (\<lparr>balance = 1000\<rparr>, joined)"
    by (simp add: get_or_create_user_def joined_def)
  have m: "get_market joined 1 = Inr (Some even_market)"
    by (simp add: get_market_def joined_def seeded_def)
  have u: "users (snd (place_bet accepting joined (JStr ''919000000001'') 1 ''YES'' 10))
      ''919000000001'' = Some \<lparr>balance = 995\<rparr>"
    by (simp add: place_bet_def row_key_JStr g m accepting_upper accepting_cost Let_def
        send_text_ledger even_market_def)
       (simp add: accepting_def)
  show ?thesis
    using j n r u sound_accepting
      balances_stay_nonneg [of accepting joined "''919000000001''" "JStr ''919000000001''" 1
        "''YES''" 10 tap_yes seeded "snd (inbound accepting tap_yes seeded)"]
      balances_stay_nonneg [of accepting seeded "''919000000001''" "JStr ''919000000001''" 1
        "''YES''" 10 tap_yes seeded seeded]
    by simp
qed

lemma handle_message_reply:
  "fst (handle_message e msg wa s) = Inr rep \<Longrightarrow> rep = ok_true"
  by (auto simp: handle_message_def Let_def split: sum.splits option.splits prod.splits)

lemma inbound_try_reply:
  "fst (inbound_try e data s) = Inr rep \<Longrightarrow> rep = ok_true"
  using handle_message_reply
  by (auto simp: inbound_try_def split: sum.splits option.splits if_splits)

text \<open>
  What the \<^verbatim>\<open>try\<close> block achieves: for every JSON value the body parses to,
  every environment and every state, the handler returns a dict, which the framework
  answers with status 200, and the dict is \<^verbatim>\<open>{"ok": True}\<close> or
  \<^verbatim>\<open>{"ok": False, "error": ...}\<close>.
\<close>

lemma inbound_acknowledges_parsed:
  "http_status (fst (inbound e (Parsed data) s)) = 200
   \<and> (fst (inbound e (Parsed data) s) = Inr ok_true
      \<or> (\<exists>x. fst (inbound e (Parsed data) s) = Inr (ok_false x)))"
proof (cases "inbound_try e data s")
  case (Pair res s')
  show ?thesis
  proof (cases res)
    case (Inl x)
    with Pair show ?thesis
      by (auto simp: inbound_def request_json_def http_status_def)
  next
    case (Inr rep)
    with Pair inbound_try_reply [of e data s rep] show ?thesis
      by (simp add: inbound_def request_json_def http_status_def)
  qed
qed

text \<open>
  C6. What the handler does with a body that is not JSON: \<^verbatim>\<open>request.json()\<close>
  at line 203 stands before the \<^verbatim>\<open>try\<close> of line 205, its exception leaves the
  handler, and the framework answers with status 500, not with 200 and a dict.
\<close>

theorem unparsable_body_raises:
  "inbound e Unparsable s = (Inl JSONDecodeError, s)
   \<and> http_status (fst (inbound e Unparsable s)) = 500"
  by (simp add: inbound_def request_json_def http_status_def)

text \<open>
  C5. What the handler does with a body that has no \<^verbatim>\<open>entry\<close>:
  \<^verbatim>\<open>(data.get("entry") or [])[0]\<close> indexes the empty default, the
  \<^verbatim>\<open>IndexError\<close> is caught, and the reply is \<^verbatim>\<open>{"ok": False, ...}\<close>,
  not \<^verbatim>\<open>{"ok": True}\<close>. Nothing is raised and the state is unchanged.
\<close>

theorem missing_entry_is_soft_failure:
  "map_of kvs ''entry'' = None \<Longrightarrow>
     inbound e (Parsed (JObj kvs)) s = (Inr (ok_false IndexError), s)"
  by (simp add: inbound_def request_json_def inbound_try_def first_message_def py_or_def)

theorem missing_entry_is_soft_failure_witness:
  "map_of ([] :: (string \<times> json) list) ''entry'' = None
   \<and> inbound accepting (Parsed (JObj [])) seeded = (Inr (ok_false IndexError), seeded)"
  using missing_entry_is_soft_failure [of "[]" accepting seeded] by simp

text \<open>
  The neighbouring path does acknowledge: an empty or missing message list under
  \<^verbatim>\<open>entry[0].changes[0].value\<close>, as in a delivery-status callback, returns
  \<^verbatim>\<open>{"ok": True}\<close> and leaves the state unchanged.
\<close>

lemma no_messages_acknowledged:
  "first_message data = Inr None \<Longrightarrow> inbound e (Parsed data) s = (Inr ok_true, s)"
  by (simp add: inbound_def request_json_def inbound_try_def)

lemma status_callback_acknowledged:
  "inbound e (Parsed (JObj [(''entry'', JArr [JObj [(''changes'',
      JArr [JObj [(''value'', JObj [(''statuses'', JArr [JObj []])])]])]])])) s
     = (Inr ok_true, s)"
  by (rule no_messages_acknowledged) (simp add: first_message_def py_or_def)

section \<open>Choosing a market by its number\<close>

lemma text_message_parts:
  "dict_get (text_message wa b) ''from'' = Inr wa"
  "button_bet e (text_message wa b) = Inr None"
  "message_text e (text_message wa b) = Inr (str_lower e (str_strip e b))"
  by (simp_all add: text_message_def button_bet_def message_text_def py_or_def)

lemma text_event_state:
  "truthy wa \<Longrightarrow> row_key e wa = Inr w \<Longrightarrow>
     snd (inbound e (Parsed (event_with (text_message wa b))) s)
       = snd (dispatch_text e (snd (get_or_create_user s w)) wa (str_lower e (str_strip e b)))"
  by (simp add: inbound_snd inbound_try_def first_message_event_with text_message_parts
      handle_message_snd)

lemma text_event_reply:
  "truthy wa \<Longrightarrow> row_key e wa = Inr w \<Longrightarrow>
     fst (inbound e (Parsed (event_with (text_message wa b))) s)
       = Inr (case fst (dispatch_text e (snd (get_or_create_user s w)) wa
                (str_lower e (str_strip e b))) of
              Inl x \<Rightarrow> ok_false x | Inr v \<Rightarrow> ok_true)"
  by (simp add: inbound_def request_json_def inbound_try_def first_message_event_with
      text_message_parts handle_message_def Let_def split: prod.split sum.split)

lemma dispatch_text_digits:
  assumes "t \<notin> set [''hi'', ''hello'', ''start'', ''markets'', ''balance'']"
    and "str_isdigit e t" and "int_of_str e t = Inr k"
  shows "dispatch_text e s wa t =
     (case get_market s k of
        Inl x \<Rightarrow> (Inl x, s)
      | Inr None \<Rightarrow> send_whatsapp e (Text wa [Lit ''Market not found. Type 'markets'.'']) s
      | Inr (Some m) \<Rightarrow> send_whatsapp e (buttons_payload wa k m) s)"
  using assms
  by (simp add: dispatch_text_def send_text_def send_yes_no_buttons_def
      split: option.split sum.split)

text \<open>
  C4. A text message from a sender \<open>wa\<close> whose row the store keeps under \<open>w\<close>. Its
  normalised body \<open>t\<close> is none of the command words, \<^verbatim>\<open>isdigit\<close> holds of it,
  and \<^verbatim>\<open>int\<close> reads it as a number \<open>k\<close> that fits into 64 signed bits. The
  handler posts exactly one payload \<open>p\<close> on the state after the user was looked up or
  created: the text \<^verbatim>\<open>Market not found. Type 'markets'.\<close> when no market has id
  \<open>k\<close>, and the two-button prompt of \<open>buttons_payload\<close> (the quotes in body and titles,
  the ids \<^verbatim>\<open>BET|k|YES\<close> and \<^verbatim>\<open>BET|k|NO\<close>) when a market with id \<open>k\<close>
  exists, open or closed. The reply is \<^verbatim>\<open>{"ok": True}\<close> unless the send raised,
  and the payload joins the sent ones when the platform accepts it.
\<close>

theorem digit_text_prompt:
  assumes "first_message data = Inr (Some (JObj kvs))"
    and "map_of kvs ''from'' = Some wa" and "truthy wa" and "row_key e wa = Inr w"
    and "map_of kvs ''type'' = Some (JStr ''text'')"
    and "map_of kvs ''text'' = Some (JObj tkvs)"
    and "map_of tkvs ''body'' = Some (JStr b)"
    and "t = str_lower e (str_strip e b)"
    and "t \<notin> set [''hi'', ''hello'', ''start'', ''markets'', ''balance'']"
    and "str_isdigit e t"
    and "int_of_str e t = Inr k" and "int64 k"
    and "p = (case map_of (markets s0) k of
                None \<Rightarrow> Text wa [Lit ''Market not found. Type 'markets'.'']
              | Some m \<Rightarrow> buttons_payload wa k m)"
    and "r = send_whatsapp e p (snd (get_or_create_user s0 w))"
  shows "snd (inbound e (Parsed data) s0) = snd r
       \<and> fst (inbound e (Parsed data) s0)
           = Inr (case fst r of Inl x \<Rightarrow> ok_false x | Inr v \<Rightarrow> ok_true)
       \<and> sent (snd (inbound e (Parsed data) s0))
           = sent s0 @ (if accepted e p then [p] else [])"
proof -
  let ?s = "snd (get_or_create_user s0 w)"
  have bb: "button_bet e (JObj kvs) = Inr None"
    using assms(5) by (simp add: button_bet_def)
  have body: "py_or (JStr b) (JStr []) = JStr b"
    by (simp add: py_or_def)
  have mt: "message_text e (JObj kvs) = Inr t"
    using assms(5,6,7,8) by (simp add: message_text_def body)
  have gm: "get_market ?s k = Inr (map_of (markets s0) k)"
    using assms(12) by (simp add: get_market_def int64_def get_or_create_user_tables)
  have d: "dispatch_text e ?s wa t = r"
    unfolding assms(14) assms(13)
    by (simp add: dispatch_text_digits [OF assms(9,10,11)] gm split: option.split)
  have h: "handle_message e (JObj kvs) wa s0
      = (case r of (Inl x, s') \<Rightarrow> (Inl x, s') | (Inr v, s') \<Rightarrow> (Inr ok_true, s'))"
    by (simp add: handle_message_def assms(4) bb mt d Let_def)
  have i: "inbound_try e data s0 = handle_message e (JObj kvs) wa s0"
    using assms(1,2,3) by (simp add: inbound_try_def)
  have a: "snd (inbound e (Parsed data) s0) = snd r
       \<and> fst (inbound e (Parsed data) s0)
           = Inr (case fst r of Inl x \<Rightarrow> ok_false x | Inr v \<Rightarrow> ok_true)"
    by (simp add: inbound_def request_json_def i h split: prod.split sum.split)
  have "sent (snd r) = sent s0 @ (if accepted e p then [p] else [])"
    unfolding assms(14) sent_send_whatsapp by (simp add: get_or_create_user_tables)
  with a show ?thesis by simp
qed

lemma accepting_text:
  "str_lower accepting (str_strip accepting '' 1 '') = ''1''"
  "str_lower accepting (str_strip accepting ''1'') = ''1''"
  "str_lower accepting (str_strip accepting ''7'') = ''7''"
  "str_lower accepting (str_strip accepting ''99999999999999999999'')
     = ''99999999999999999999''"
  by (simp_all add: accepting_def ascii_lower_def ascii_strip_def trim_def)

lemma accepting_digits:
  "str_isdigit accepting ''1''" "str_isdigit accepting ''7''"
  "str_isdigit accepting ''99999999999999999999''"
  by (simp_all add: accepting_def ascii_isdigit_def)

lemma accepting_int:
  "int_of_str accepting ''1'' = Inr 1" "int_of_str accepting ''7'' = Inr 7"
  "int_of_str accepting ''99999999999999999999'' = Inr 99999999999999999999"
  by (simp_all add: accepting_def ascii_int_def trim_def ascii_isdigit_def decimal_def Let_def)

theorem digit_text_prompt_witness:
  "first_message (event_with (text_message (JStr ''919000000001'') '' 1 ''))
     = Inr (Some (text_message (JStr ''919000000001'') '' 1 ''))
   \<and> str_isdigit accepting (str_lower accepting (str_strip accepting '' 1 ''))
   \<and> int_of_str accepting (str_lower accepting (str_strip accepting '' 1 '')) = Inr 1
   \<and> int64 1
   \<and> map_of (markets seeded) 1 = Some even_market
   \<and> sent (snd (inbound accepting
        (Parsed (event_with (text_message (JStr ''919000000001'') '' 1 ''))) seeded))
       = [Interactive (JStr ''919000000001'')
           [Lit ''Will India win the next match?'', Lit [CHR 0x0A, CHR 0x0A], Lit ''YES: '',
            F2 (1 / 2), Lit '' | NO: '', F2 (1 / 2), Lit [CHR 0x0A, CHR 0x0A],
            Lit ''Choose:'']
           [([Lit ''BET|'', D 1, Lit ''|YES''], [Lit ''YES ('', F2 (1 / 2), Lit '')'']),
            ([Lit ''BET|'', D 1, Lit ''|NO''], [Lit ''NO ('', F2 (1 / 2), Lit '')''])]]
   \<and> str_isdigit accepting (str_lower accepting (str_strip accepting ''7''))
   \<and> map_of (markets seeded) 7 = None
   \<and> sent (snd (inbound accepting
        (Parsed (event_with (text_message (JStr ''919000000001'') ''7''))) seeded))
       = [Text (JStr ''919000000001'') [Lit ''Market not found. Type 'markets'.'']]"
proof -
  have s: "sent seeded = []"
    by (simp add: seeded_def)
  have i: "int64 1" "int64 7" by (simp_all add: int64_def)
  have tr: "truthy (JStr ''919000000001'')" by simp
  have nc: "''1'' \<notin> set [''hi'', ''hello'', ''start'', ''markets'', ''balance'']"
    "''7'' \<notin> set [''hi'', ''hello'', ''start'', ''markets'', ''balance'']"
    by simp_all
  have fm: "first_message (event_with (text_message (JStr ''919000000001'') b))
      = Inr (Some (JObj [(''from'', JStr ''919000000001''), (''type'', JStr ''text''),
                  (''text'', JObj [(''body'', JStr b)])]))" for b
    by (simp add: first_message_event_with text_message_def)
  have kv: "map_of [(''from'', JStr ''919000000001''), (''type'', JStr ''text''),
                  (''text'', JObj [(''body'', JStr b)])] ''from'' = Some (JStr ''919000000001'')"
    "map_of [(''from'', JStr ''919000000001''), (''type'', JStr ''text''),
                  (''text'', JObj [(''body'', JStr b)])] ''type'' = Some (JStr ''text'')"
    "map_of [(''from'', JStr ''919000000001''), (''type'', JStr ''text''),
                  (''text'', JObj [(''body'', JStr b)])] ''text'' = Some (JObj [(''body'', JStr b)])"
    "map_of [(''body'', JStr b)] ''body'' = Some (JStr b)" for b
    by simp_all
  note one = digit_text_prompt [OF fm kv(1) tr accepting_keys(1) kv(2) kv(3) kv(4)
      accepting_text(1) [symmetric] nc(1) accepting_digits(1) accepting_int(1) i(1) refl refl]
  note seven = digit_text_prompt [OF fm kv(1) tr accepting_keys(1) kv(2) kv(3) kv(4)
      accepting_text(3) [symmetric] nc(2) accepting_digits(2) accepting_int(2) i(2) refl refl]
  have A: "sent (snd (inbound accepting
        (Parsed (event_with (text_message (JStr ''919000000001'') '' 1 ''))) seeded))
       = [buttons_payload (JStr ''919000000001'') 1 even_market]"
    using one [THEN conjunct2, THEN conjunct2]
    by (simp add: seeded_markets(3) s accepting_accepts)
  have B: "sent (snd (inbound accepting
        (Parsed (event_with (text_message (JStr ''919000000001'') ''7''))) seeded))
       = [Text (JStr ''919000000001'') [Lit ''Market not found. Type 'markets'.'']]"
    using seven [THEN conjunct2, THEN conjunct2]
    by (simp add: seeded_markets(4) s accepting_accepts)
  have C: "buttons_payload (JStr ''919000000001'') 1 even_market
      = Interactive (JStr ''919000000001'')
           [Lit ''Will India win the next match?'', Lit [CHR 0x0A, CHR 0x0A], Lit ''YES: '',
            F2 (1 / 2), Lit '' | NO: '', F2 (1 / 2), Lit [CHR 0x0A, CHR 0x0A],
            Lit ''Choose:'']
           [([Lit ''BET|'', D 1, Lit ''|YES''], [Lit ''YES ('', F2 (1 / 2), Lit '')'']),
            ([Lit ''BET|'', D 1, Lit ''|NO''], [Lit ''NO ('', F2 (1 / 2), Lit '')''])]"
    by (simp add: buttons_payload_def even_market_def)
  show ?thesis
    unfolding A B C accepting_text
    using i(1) seeded_markets(3,4) accepting_digits(1,2) accepting_int(1)
    by (simp add: first_message_event_with)
qed

text \<open>
  The prompt does not wait for the market to be open: the digit branch never reads
  \<^verbatim>\<open>is_open\<close>, and a closed market 1 gets the two buttons. And a number that
  does not fit into 64 signed bits gets no reply at all: \<^verbatim>\<open>db.get\<close> at line 246
  raises, nothing is posted and the handler answers \<^verbatim>\<open>{"ok": False, ...}\<close>.
\<close>

theorem closed_market_prompt_counterexample:
  "map_of (markets closed_world) 1 = Some (even_market\<lparr>is_open := False\<rparr>)
   \<and> \<not> is_open (even_market\<lparr>is_open := False\<rparr>)
   \<and> sent (snd (inbound accepting
        (Parsed (event_with (text_message (JStr ''919000000001'') ''1''))) closed_world))
       = [buttons_payload (JStr ''919000000001'') 1 (even_market\<lparr>is_open := False\<rparr>)]
   \<and> str_isdigit accepting ''99999999999999999999''
   \<and> map_of (markets seeded) 99999999999999999999 = None
   \<and> fst (inbound accepting
        (Parsed (event_with (text_message (JStr ''919000000001'') ''99999999999999999999'')))
        seeded) = Inr (ok_false OverflowError)
   \<and> sent (snd (inbound accepting
        (Parsed (event_with (text_message (JStr ''919000000001'') ''99999999999999999999'')))
        seeded)) = []"
proof -
  have m: "map_of (markets closed_world) 1 = Some (even_market\<lparr>is_open := False\<rparr>)"
    "get_market closed_world 1 = Inr (Some (even_market\<lparr>is_open := False\<rparr>))"
    by (simp_all add: closed_world_def get_market_def)
  have s: "sent closed_world = []" "sent seeded = []"
    by (simp_all add: closed_world_def seeded_def)
  have w: "\<And>t. t \<in> set [''1'', ''99999999999999999999''] \<Longrightarrow>
      t \<notin> set [''hi'', ''hello'', ''start'', ''markets'', ''balance'']"
    by auto
  have A: "sent (snd (inbound accepting
        (Parsed (event_with (text_message (JStr ''919000000001'') ''1''))) closed_world))
       = [buttons_payload (JStr ''919000000001'') 1 (even_market\<lparr>is_open := False\<rparr>)]"
    by (simp add: text_event_state [OF _ accepting_keys(1)] accepting_text
        dispatch_text_digits [OF w accepting_digits(1) accepting_int(1)]
        get_market_def get_or_create_user_tables m(1) sent_send_whatsapp accepting_accepts s)
  have big: "get_market (snd (get_or_create_user seeded ''919000000001'')) 99999999999999999999
      = Inl OverflowError"
    by (simp add: get_market_def)
  have d: "dispatch_text accepting (snd (get_or_create_user seeded ''919000000001''))
        (JStr ''919000000001'') ''99999999999999999999''
      = (Inl OverflowError, snd (get_or_create_user seeded ''919000000001''))"
    by (simp add: dispatch_text_digits [OF w accepting_digits(3) accepting_int(3)] big)
  have B: "fst (inbound accepting
        (Parsed (event_with (text_message (JStr ''919000000001'') ''99999999999999999999'')))
        seeded) = Inr (ok_false OverflowError)"
    by (simp add: text_event_reply [OF _ accepting_keys(1)] accepting_text d)
  have C: "sent (snd (inbound accepting
        (Parsed (event_with (text_message (JStr ''919000000001'') ''99999999999999999999'')))
        seeded)) = []"
    by (simp add: text_event_state [OF _ accepting_keys(1)] accepting_text d
        get_or_create_user_tables s)
  have n: "map_of (markets seeded) 99999999999999999999 = None"
    by (simp add: seeded_def)
  show ?thesis
    using m(1) A B C n accepting_digits(3) by simp
qed

end
